theory Spec2Isabelle
  imports Complex_Main "HOL-Library.AList" "HOL-Library.Word"
begin

section \<open>JavaScript values\<close>

text \<open>
  The handlers of \<^verbatim>\<open>server.js\<close> only move values around: the parsed JSON body of the
  request, the parsed body of the upstream response, and the object literals they build.
  A value is \<^verbatim>\<open>undefined\<close> or one of the values \<^verbatim>\<open>JSON.parse\<close> produces. A number is an
  IEEE double, given by its exact value (every finite double is a rational; \<open>+0\<close> and
  \<open>-0\<close> are both \<open>Finite 0\<close>). An object is the list of its own properties in insertion
  order, read with \<open>map_of\<close>. No arithmetic is done on numbers anywhere in the program.
\<close>

datatype jsnum = Finite rat | PosInf | NegInf | NaN

datatype json =
    JUndefined
  | JNull
  | JBool bool
  | JNum jsnum
  | JStr string
  | JArr "json list"
  | JObj "(string \<times> json) list"

text \<open>\<^verbatim>\<open>ToBoolean\<close>: what \<^verbatim>\<open>!v\<close> and \<^verbatim>\<open>v ? a : b\<close> test.\<close>

fun truthy :: "json \<Rightarrow> bool" where
  "truthy JUndefined = False"
| "truthy JNull = False"
| "truthy (JBool b) = b"
| "truthy (JNum (Finite r)) = (r \<noteq> 0)"
| "truthy (JNum NaN) = False"
| "truthy (JNum PosInf) = True"
| "truthy (JNum NegInf) = True"
| "truthy (JStr s) = (s \<noteq> [])"
| "truthy (JArr xs) = True"
| "truthy (JObj ps) = True"

text \<open>
  The response of a settled upstream call as axios hands it over (\<^verbatim>\<open>response.data\<close>,
  \<^verbatim>\<open>response.status\<close>), and the values a \<^verbatim>\<open>catch\<close> clause of this program can receive: the
  rejection of \<^verbatim>\<open>axios.post\<close>, which carries \<^verbatim>\<open>error.response\<close> when the upstream answered
  at all, and the \<^verbatim>\<open>TypeError\<close> of reading a property of \<^verbatim>\<open>undefined\<close> or \<^verbatim>\<open>null\<close>, which has
  no \<^verbatim>\<open>response\<close> property.
\<close>

record axios_response =
  data :: json
  status :: nat

datatype js_error =
    TypeError string
  | AxiosError "axios_response option" string

fun err_response :: "js_error \<Rightarrow> axios_response option" where
  "err_response (TypeError m) = None"
| "err_response (AxiosError r m) = r"

fun err_message :: "js_error \<Rightarrow> string" where
  "err_message (TypeError m) = m"
| "err_message (AxiosError r m) = m"

text \<open>
  The message of the engine's \<^verbatim>\<open>TypeError\<close> (the wording of V8, the engine of Node.js);
  \<open>b\<close> is \<^verbatim>\<open>undefined\<close> or \<^verbatim>\<open>null\<close>, \<open>k\<close> the property read.
\<close>

definition cannot_read :: "string \<Rightarrow> string \<Rightarrow> string" where
  "cannot_read b k =
     ''Cannot read properties of '' @ b @ '' (reading '' @ [CHR 0x27] @ k @ [CHR 0x27] @ '')''"

definition cannot_destructure :: "string \<Rightarrow> string \<Rightarrow> string \<Rightarrow> string" where
  "cannot_destructure k src b =
     ''Cannot destructure property '' @ [CHR 0x27] @ k @ [CHR 0x27] @ '' of '' @
     [CHR 0x27] @ src @ [CHR 0x27] @ '' as it is '' @ b @ ''.''"

text \<open>
  \<^verbatim>\<open>v.k\<close> for a property name \<open>k\<close> that is neither an array index, \<^verbatim>\<open>length\<close> nor a member
  of a built-in prototype. The program reads \<^verbatim>\<open>question\<close>, \<^verbatim>\<open>text\<close>, \<^verbatim>\<open>choices\<close>, \<^verbatim>\<open>message\<close>
  and \<^verbatim>\<open>content\<close> this way. Reading from \<^verbatim>\<open>undefined\<close> or \<^verbatim>\<open>null\<close> throws; a primitive or an
  array has no such property.
\<close>

fun get_member :: "json \<Rightarrow> string \<Rightarrow> js_error + json" where
  "get_member JUndefined k = Inl (TypeError (cannot_read ''undefined'' k))"
| "get_member JNull k = Inl (TypeError (cannot_read ''null'' k))"
| "get_member (JObj ps) k = Inr (case map_of ps k of None \<Rightarrow> JUndefined | Some v \<Rightarrow> v)"
| "get_member (JBool b) k = Inr JUndefined"
| "get_member (JNum n) k = Inr JUndefined"
| "get_member (JStr s) k = Inr JUndefined"
| "get_member (JArr xs) k = Inr JUndefined"

text \<open>
  \<^verbatim>\<open>v[0]\<close>: the first element of an array, the first character of a string, the property
  \<^verbatim>\<open>"0"\<close> of an object; \<^verbatim>\<open>undefined\<close> when there is none.
\<close>

fun index0 :: "json \<Rightarrow> js_error + json" where
  "index0 JUndefined = Inl (TypeError (cannot_read ''undefined'' ''0''))"
| "index0 JNull = Inl (TypeError (cannot_read ''null'' ''0''))"
| "index0 (JArr xs) = Inr (case xs of [] \<Rightarrow> JUndefined | x # _ \<Rightarrow> x)"
| "index0 (JStr s) = Inr (case s of [] \<Rightarrow> JUndefined | c # _ \<Rightarrow> JStr [c])"
| "index0 (JObj ps) = Inr (case map_of ps ''0'' of None \<Rightarrow> JUndefined | Some v \<Rightarrow> v)"
| "index0 (JBool b) = Inr JUndefined"
| "index0 (JNum n) = Inr JUndefined"

text \<open>
  \<^verbatim>\<open>{...a, ...b}\<close> on objects as property lists: a key of \<open>b\<close> already present keeps its
  place and takes the new value, a new key goes to the end.
\<close>

definition obj_spread :: "('k \<times> 'v) list \<Rightarrow> ('k \<times> 'v) list \<Rightarrow> ('k \<times> 'v) list" where
  "obj_spread a b = foldl (\<lambda>acc (k, v). AList.update k v acc) a b"

section \<open>The request, the outbound call, the response\<close>

text \<open>
  \<^verbatim>\<open>req\<close> as the handlers see it, after the middleware: \<^verbatim>\<open>req.body\<close> set by
  \<^verbatim>\<open>express.json()\<close> (\<^verbatim>\<open>undefined\<close> when nothing was parsed and the framework leaves it unset),
  \<^verbatim>\<open>req.file\<close> set by \<^verbatim>\<open>upload.single('audio')\<close> (absent when the form carries no file part;
  multer keeps the file in memory).
\<close>

record uploaded_file =
  originalname :: string
  mimetype :: string
  buffer :: "8 word list"

record request =
  body :: json
  req_file :: "uploaded_file option"

text \<open>
  A \<^verbatim>\<open>FormData\<close> object: the multipart boundary it was created with (chosen by the library,
  a parameter here) and the fields appended so far.
\<close>

datatype form_value =
    FileValue "8 word list" string string
  | TextValue string

record form_data =
  boundary :: string
  parts :: "(string \<times> form_value) list"

definition new_FormData :: "string \<Rightarrow> form_data" where
  "new_FormData b = \<lparr>boundary = b, parts = []\<rparr>"

definition append_field :: "string \<Rightarrow> form_value \<Rightarrow> form_data \<Rightarrow> form_data" where
  "append_field name v fd = fd\<lparr>parts := parts fd @ [(name, v)]\<rparr>"

definition getHeaders :: "form_data \<Rightarrow> (string \<times> string) list" where
  "getHeaders fd = [(''content-type'', ''multipart/form-data; boundary='' @ boundary fd)]"

datatype payload = JsonBody json | FormBody form_data

record outbound =
  url :: string
  payload :: payload
  headers :: "(string \<times> string) list"

text \<open>
  How the promise of \<^verbatim>\<open>axios.post\<close> settles: fulfilled with the response (axios does so for
  a 2xx status), rejected with an error (a non-2xx status, with \<^verbatim>\<open>error.response\<close>; a network
  failure, without), or never. The upstream and the network are a function from the call
  to its outcome.
\<close>

datatype settled = Fulfilled axios_response | Rejected js_error | Pending

type_synonym upstream = "outbound \<Rightarrow> settled"

text \<open>
  The effects of one handler run: the status code and the body given to \<^verbatim>\<open>res.json\<close>
  (\<open>None\<close> while nothing has been sent), and the outbound calls made, in order. Console
  output is not part of the state.
\<close>

record world =
  statusCode :: nat
  sent :: "json option"
  calls :: "outbound list"

definition init_world :: world where
  "init_world = \<lparr>statusCode = 200, sent = None, calls = []\<rparr>"

definition res_status :: "nat \<Rightarrow> world \<Rightarrow> world" where
  "res_status n w = w\<lparr>statusCode := n\<rparr>"

definition res_json :: "json \<Rightarrow> world \<Rightarrow> world" where
  "res_json v w = w\<lparr>sent := Some v\<rparr>"

definition axios_post ::
  "upstream \<Rightarrow> string \<Rightarrow> payload \<Rightarrow> (string \<times> string) list \<Rightarrow> world \<Rightarrow> settled \<times> world" where
  "axios_post up u d hs w =
     (let c = \<lparr>url = u, payload = d, headers = hs\<rparr>
      in (up c, w\<lparr>calls := calls w @ [c]\<rparr>))"

section \<open>Configuration\<close>

text \<open>
  \<^verbatim>\<open>process.env.OPENAI_API_KEY\<close> is a string or \<^verbatim>\<open>undefined\<close>; a template literal renders
  \<^verbatim>\<open>undefined\<close> as the text \<^verbatim>\<open>undefined\<close>. Startup only logs a missing key.
\<close>

record env =
  OPENAI_API_KEY :: "string option"
  form_boundary :: string

definition template_str :: "string option \<Rightarrow> string" where
  "template_str k = (case k of None \<Rightarrow> ''undefined'' | Some s \<Rightarrow> s)"

definition bearer :: "env \<Rightarrow> string" where
  "bearer e = ''Bearer '' @ template_str (OPENAI_API_KEY e)"

text \<open>
  The literal \<^verbatim>\<open>0.7\<close> denotes the double nearest to seven tenths, \<open>0x16666666666666 / 2^53\<close>;
  \<^verbatim>\<open>250\<close> is exact.
\<close>

definition temperature_literal :: rat where
  "temperature_literal = 3152519739159347 / 4503599627370496"

definition max_tokens_literal :: rat where
  "max_tokens_literal = 250"

section \<open>The handlers\<close>

text \<open>
  A handler run yields the uncaught exception, if any, and the effects. Both \<^verbatim>\<open>catch\<close>
  clauses answer 500 with the handler's fixed text and
  \<^verbatim>\<open>error.response ? error.response.data : error.message\<close>.
\<close>

definition error_details :: "js_error \<Rightarrow> json" where
  "error_details e =
     (case err_response e of Some r \<Rightarrow> data r | None \<Rightarrow> JStr (err_message e))"

definition catch_500 :: "string \<Rightarrow> js_error \<Rightarrow> world \<Rightarrow> world" where
  "catch_500 msg e w =
     res_json (JObj [(''error'', JStr msg), (''details'', error_details e)]) (res_status 500 w)"

subsection \<open>\<^verbatim>\<open>POST /api/stt\<close>\<close>

definition stt_form :: "env \<Rightarrow> uploaded_file \<Rightarrow> form_data" where
  "stt_form e f =
     append_field ''model'' (TextValue ''whisper-1'')
       (append_field ''file'' (FileValue (buffer f) ''audio.webm'' (mimetype f))
          (new_FormData (form_boundary e)))"

definition stt_handler :: "env \<Rightarrow> upstream \<Rightarrow> request \<Rightarrow> js_error option \<times> world" where
  "stt_handler e up req =
     (case req_file req of
        None \<Rightarrow>
          (None, res_json (JObj [(''error'', JStr ''No audio file provided.'')])
                   (res_status 400 init_world))
      | Some f \<Rightarrow>
          (let formData = stt_form e f;
               (whisperResponse, w) =
                  axios_post up ''https://api.openai.com/v1/audio/transcriptions''
                    (FormBody formData)
                    (obj_spread [(''Authorization'', bearer e)] (getHeaders formData))
                    init_world
           in case whisperResponse of
                Pending \<Rightarrow> (None, w)
              | Rejected err \<Rightarrow> (None, catch_500 ''Failed to transcribe audio.'' err w)
              | Fulfilled r \<Rightarrow>
                  (case get_member (data r) ''text'' of
                     Inl err \<Rightarrow> (None, catch_500 ''Failed to transcribe audio.'' err w)
                   | Inr t \<Rightarrow> (None, res_json (JObj [(''transcription'', t)]) w))))"

subsection \<open>\<^verbatim>\<open>POST /api/openai\<close>\<close>

text \<open>
  \<^verbatim>\<open>const { question } = req.body\<close> stands before the \<^verbatim>\<open>try\<close>: on a body that is
  \<^verbatim>\<open>undefined\<close> or \<^verbatim>\<open>null\<close> it throws out of the handler.
\<close>

definition destructure_question :: "json \<Rightarrow> js_error + json" where
  "destructure_question b =
     (if b = JUndefined then
        Inl (TypeError (cannot_destructure ''question'' ''req.body'' ''undefined''))
      else if b = JNull then
        Inl (TypeError (cannot_destructure ''question'' ''req.body'' ''null''))
      else get_member b ''question'')"

definition chat_body :: "json \<Rightarrow> json" where
  "chat_body question =
     JObj [(''model'', JStr ''gpt-3.5-turbo''),
           (''messages'', JArr [JObj [(''role'', JStr ''user''), (''content'', question)]]),
           (''temperature'', JNum (Finite temperature_literal)),
           (''max_tokens'', JNum (Finite max_tokens_literal))]"

text \<open>\<^verbatim>\<open>openaiResponse.data.choices[0].message.content\<close>, left to right.\<close>

definition first_content :: "json \<Rightarrow> js_error + json" where
  "first_content d =
     (case get_member d ''choices'' of
        Inl err \<Rightarrow> Inl err
      | Inr cs \<Rightarrow>
          (case index0 cs of
             Inl err \<Rightarrow> Inl err
           | Inr c \<Rightarrow>
               (case get_member c ''message'' of
                  Inl err \<Rightarrow> Inl err
                | Inr m \<Rightarrow> get_member m ''content'')))"

definition openai_handler :: "env \<Rightarrow> upstream \<Rightarrow> request \<Rightarrow> js_error option \<times> world" where
  "openai_handler e up req =
     (case destructure_question (body req) of
        Inl err \<Rightarrow> (Some err, init_world)
      | Inr question \<Rightarrow>
          if \<not> truthy question then
            (None, res_json (JObj [(''error'', JStr ''No question provided.'')])
                     (res_status 400 init_world))
          else
            (let (openaiResponse, w) =
                   axios_post up ''https://api.openai.com/v1/chat/completions''
                     (JsonBody (chat_body question))
                     [(''Authorization'', bearer e), (''Content-Type'', ''application/json'')]
                     init_world
             in case openaiResponse of
                  Pending \<Rightarrow> (None, w)
                | Rejected err \<Rightarrow> (None, catch_500 ''Failed to get answer from AI.'' err w)
                | Fulfilled r \<Rightarrow>
                    (case first_content (data r) of
                       Inl err \<Rightarrow> (None, catch_500 ''Failed to get answer from AI.'' err w)
                     | Inr c \<Rightarrow> (None, res_json (JObj [(''answer'', c)]) w))))"

subsection \<open>Routing and observations\<close>

text \<open>The two routes registered with \<^verbatim>\<open>app.post\<close>.\<close>

datatype route = ApiStt | ApiOpenai

fun handle :: "route \<Rightarrow> env \<Rightarrow> upstream \<Rightarrow> request \<Rightarrow> js_error option \<times> world" where
  "handle ApiStt = stt_handler"
| "handle ApiOpenai = openai_handler"

text \<open>
  What a run shows from outside: the exception that escaped the handler, the HTTP response
  (status and JSON body, once \<^verbatim>\<open>res.json\<close> has run) and the calls made to the upstream.
\<close>

definition uncaught_of :: "js_error option \<times> world \<Rightarrow> js_error option" where
  "uncaught_of r = fst r"

definition response_of :: "js_error option \<times> world \<Rightarrow> (nat \<times> json) option" where
  "response_of r = map_option (\<lambda>b. (statusCode (snd r), b)) (sent (snd r))"

definition calls_of :: "js_error option \<times> world \<Rightarrow> outbound list" where
  "calls_of r = calls (snd r)"

subsection \<open>The upload middleware in front of \<^verbatim>\<open>/api/stt\<close>\<close>








subsection \<open>Sample inputs\<close>

definition sample_env :: env where
  "sample_env = \<lparr>OPENAI_API_KEY = Some ''sk-test'', form_boundary = ''--------42''\<rparr>"

definition sample_file :: uploaded_file where
  "sample_file =
     \<lparr>originalname = ''clip.ogg'', mimetype = ''audio/ogg'', buffer = [0x4F, 0x67, 0x67, 0x53]\<rparr>"

definition audio_request :: request where
  "audio_request = \<lparr>body = JObj [], req_file = Some sample_file\<rparr>"

definition json_request :: "json \<Rightarrow> request" where
  "json_request b = \<lparr>body = b, req_file = None\<rparr>"

definition answers :: "json \<Rightarrow> upstream" where
  "answers d = (\<lambda>c. Fulfilled \<lparr>data = d, status = 200\<rparr>)"

definition refuses :: "json \<Rightarrow> upstream" where
  "refuses d =
     (\<lambda>c. Rejected (AxiosError (Some \<lparr>data = d, status = 401\<rparr>)
                       ''Request failed with status code 401''))"

definition unreachable :: upstream where
  "unreachable = (\<lambda>c. Rejected (AxiosError None ''getaddrinfo ENOTFOUND api.openai.com''))"

definition completion_42 :: json where
  "completion_42 =
     JObj [(''id'', JStr ''chatcmpl-1''),
           (''choices'',
            JArr [JObj [(''index'', JNum (Finite 0)),
                        (''message'', JObj [(''role'', JStr ''assistant''),
                                            (''content'', JStr ''42'')])]])]"

definition invalid_key :: json where
  "invalid_key =
     JObj [(''error'', JObj [(''message'', JStr ''Incorrect API key provided''),
                             (''type'', JStr ''invalid_request_error'')])]"

section \<open>One run, step by step\<close>

lemmas effect_defs = init_world_def res_status_def res_json_def axios_post_def catch_500_def
  error_details_def uncaught_of_def response_of_def calls_of_def

lemmas stt_defs = stt_handler_def stt_form_def new_FormData_def append_field_def getHeaders_def
  obj_spread_def bearer_def


lemma stt_no_file_run:
  "req_file req = None \<Longrightarrow>
   stt_handler e up req =
     (None, \<lparr>statusCode = 400,
             sent = Some (JObj [(''error'', JStr ''No audio file provided.'')]),
             calls = []\<rparr>)"
  by (simp add: stt_handler_def init_world_def res_status_def res_json_def)

lemma stt_run:
  "req_file req = Some f \<Longrightarrow>
   stt_handler e up req =
     (let c = \<lparr>url = ''https://api.openai.com/v1/audio/transcriptions'',
               payload = FormBody \<lparr>boundary = form_boundary e,
                   parts = [(''file'', FileValue (buffer f) ''audio.webm'' (mimetype f)),
                            (''model'', TextValue ''whisper-1'')]\<rparr>,
               headers = [(''Authorization'', ''Bearer '' @ template_str (OPENAI_API_KEY e)),
                  (''content-type'', ''multipart/form-data; boundary='' @ form_boundary e)]\<rparr>;
          w = \<lparr>statusCode = 200, sent = None, calls = [c]\<rparr>
      in case up c of
           Pending \<Rightarrow> (None, w)
         | Rejected err \<Rightarrow> (None, catch_500 ''Failed to transcribe audio.'' err w)
         | Fulfilled r \<Rightarrow>
             (case get_member (data r) ''text'' of
                Inl err \<Rightarrow> (None, catch_500 ''Failed to transcribe audio.'' err w)
              | Inr t \<Rightarrow> (None, res_json (JObj [(''transcription'', t)]) w)))"
  by (simp add: stt_defs init_world_def axios_post_def Let_def
      split: settled.splits sum.splits)

lemma openai_throw_run:
  "destructure_question (body req) = Inl err \<Longrightarrow>
   openai_handler e up req = (Some err, \<lparr>statusCode = 200, sent = None, calls = []\<rparr>)"
  by (simp add: openai_handler_def init_world_def)

lemma openai_falsy_run:
  "destructure_question (body req) = Inr q \<Longrightarrow> \<not> truthy q \<Longrightarrow>
   openai_handler e up req =
     (None, \<lparr>statusCode = 400,
             sent = Some (JObj [(''error'', JStr ''No question provided.'')]),
             calls = []\<rparr>)"
  by (simp add: openai_handler_def init_world_def res_status_def res_json_def)

lemma openai_run:
  "destructure_question (body req) = Inr q \<Longrightarrow> truthy q \<Longrightarrow>
   openai_handler e up req =
     (let c = \<lparr>url = ''https://api.openai.com/v1/chat/completions'',
               payload = JsonBody (chat_body q),
               headers = [(''Authorization'', ''Bearer '' @ template_str (OPENAI_API_KEY e)),
                          (''Content-Type'', ''application/json'')]\<rparr>;
          w = \<lparr>statusCode = 200, sent = None, calls = [c]\<rparr>
      in case up c of
           Pending \<Rightarrow> (None, w)
         | Rejected err \<Rightarrow> (None, catch_500 ''Failed to get answer from AI.'' err w)
         | Fulfilled r \<Rightarrow>
             (case first_content (data r) of
                Inl err \<Rightarrow> (None, catch_500 ''Failed to get answer from AI.'' err w)
              | Inr a \<Rightarrow> (None, res_json (JObj [(''answer'', a)]) w)))"
  by (simp add: openai_handler_def bearer_def init_world_def axios_post_def Let_def
      split: settled.splits sum.splits)

lemma destructure_object:
  "destructure_question (JObj ps) =
     Inr (case map_of ps ''question'' of None \<Rightarrow> JUndefined | Some v \<Rightarrow> v)"
  by (simp add: destructure_question_def)

text \<open>A call was made only when the request passed the handler's check.\<close>

lemma stt_called:
  "c \<in> set (calls_of (stt_handler e up req)) \<Longrightarrow> \<exists>f. req_file req = Some f"
  by (cases "req_file req") (simp_all add: stt_no_file_run calls_of_def)

lemma openai_called:
  "c \<in> set (calls_of (openai_handler e up req)) \<Longrightarrow>
   \<exists>q. destructure_question (body req) = Inr q \<and> truthy q"
proof (cases "destructure_question (body req)")
  case (Inl err)
  assume "c \<in> set (calls_of (openai_handler e up req))"
  with Inl show ?thesis by (simp add: openai_throw_run calls_of_def)
next
  case (Inr q)
  assume "c \<in> set (calls_of (openai_handler e up req))"
  with Inr show ?thesis by (cases "truthy q") (simp_all add: openai_falsy_run calls_of_def)
qed

lemma sample_stt_called: "calls_of (stt_handler sample_env up audio_request) \<noteq> []"
proof -
  have "req_file audio_request = Some sample_file" by (simp add: audio_request_def)
  then show ?thesis
    by (simp add: stt_run calls_of_def effect_defs Let_def split: settled.splits sum.splits)
qed

lemma sample_openai_called:
  assumes "truthy q"
  shows "calls_of (openai_handler sample_env up (json_request (JObj [(''question'', q)]))) \<noteq> []"
proof -
  have "destructure_question (body (json_request (JObj [(''question'', q)]))) = Inr q"
    by (simp add: json_request_def destructure_object)
  from this assms show ?thesis
    by (simp add: openai_run calls_of_def effect_defs Let_def split: settled.splits sum.splits)
qed

section \<open>Input validation\<close>







section \<open>Successful upstream calls\<close>





section \<open>Failing upstream calls\<close>

text \<open>
  C3. On either route, when a call the handler made to the upstream is rejected (a network
  failure or a status outside 2xx), that call is the only one made (nothing is retried),
  nothing escapes the handler, and the answer is HTTP 500 with the route's fixed \<^verbatim>\<open>error\<close>
  text and a \<^verbatim>\<open>details\<close> field: the body of the upstream's response when the rejection
  carries one, the local error message otherwise.
\<close>

theorem upstream_failure_500:
  assumes "c \<in> set (calls_of (handle rt e up req))"
    and "up c = Rejected err"
  shows "calls_of (handle rt e up req) = [c] \<and>
         uncaught_of (handle rt e up req) = None \<and>
         response_of (handle rt e up req) =
           Some (500,
                 JObj [(''error'',
                        JStr (case rt of
                                ApiStt \<Rightarrow> ''Failed to transcribe audio.''
                              | ApiOpenai \<Rightarrow> ''Failed to get answer from AI.'')),
                       (''details'',
                        case err_response err of
                          Some r \<Rightarrow> data r
                        | None \<Rightarrow> JStr (err_message err))])"
proof (cases rt)
  case ApiStt
  with assms(1) have "c \<in> set (calls_of (stt_handler e up req))" by simp
  then obtain f where f: "req_file req = Some f"
    using stt_called by blast
  from assms ApiStt show ?thesis
    by (auto simp: stt_run [OF f] effect_defs Let_def split: settled.splits sum.splits)
next
  case ApiOpenai
  with assms(1) have "c \<in> set (calls_of (openai_handler e up req))" by simp
  then obtain q where q: "destructure_question (body req) = Inr q" "truthy q"
    using openai_called by blast
  from assms ApiOpenai show ?thesis
    by (auto simp: openai_run [OF q] effect_defs Let_def split: settled.splits sum.splits)
qed

theorem upstream_failure_500_witness:
  "hd (calls_of (handle ApiStt sample_env (refuses invalid_key) audio_request))
     \<in> set (calls_of (handle ApiStt sample_env (refuses invalid_key) audio_request)) \<and>
   length (calls_of (handle ApiStt sample_env (refuses invalid_key) audio_request)) = 1 \<and>
   response_of (handle ApiStt sample_env (refuses invalid_key) audio_request) =
     Some (500, JObj [(''error'', JStr ''Failed to transcribe audio.''),
                      (''details'', invalid_key)]) \<and>
   hd (calls_of (handle ApiOpenai sample_env unreachable
                   (json_request (JObj [(''question'', JStr ''hi'')]))))
     \<in> set (calls_of (handle ApiOpenai sample_env unreachable
                        (json_request (JObj [(''question'', JStr ''hi'')])))) \<and>
   length (calls_of (handle ApiOpenai sample_env unreachable
                       (json_request (JObj [(''question'', JStr ''hi'')])))) = 1 \<and>
   response_of (handle ApiOpenai sample_env unreachable
                  (json_request (JObj [(''question'', JStr ''hi'')]))) =
     Some (500, JObj [(''error'', JStr ''Failed to get answer from AI.''),
                      (''details'', JStr ''getaddrinfo ENOTFOUND api.openai.com'')])"
proof -
  let ?r1 = "handle ApiStt sample_env (refuses invalid_key) audio_request"
  let ?r2 = "handle ApiOpenai sample_env unreachable
               (json_request (JObj [(''question'', JStr ''hi'')]))"
  have c1: "hd (calls_of ?r1) \<in> set (calls_of ?r1)"
    using sample_stt_called by simp
  have u1: "refuses invalid_key (hd (calls_of ?r1)) =
              Rejected (AxiosError (Some \<lparr>data = invalid_key, status = 401\<rparr>)
                          ''Request failed with status code 401'')"
    by (simp add: refuses_def)
  have c2: "hd (calls_of ?r2) \<in> set (calls_of ?r2)"
    using sample_openai_called [of "JStr ''hi''"] by simp
  have u2: "unreachable (hd (calls_of ?r2)) =
              Rejected (AxiosError None ''getaddrinfo ENOTFOUND api.openai.com'')"
    by (simp add: unreachable_def)
  note w1 = upstream_failure_500 [OF c1 u1]
  note w2 = upstream_failure_500 [OF c2 u2]
  have l1: "length (calls_of ?r1) = 1"
    using arg_cong [OF conjunct1 [OF w1], of length] by simp
  have l2: "length (calls_of ?r2) = 1"
    using arg_cong [OF conjunct1 [OF w2], of length] by simp
  from conjunct2 [OF conjunct2 [OF w1]] conjunct2 [OF conjunct2 [OF w2]] l1 l2 c1 c2
  show ?thesis by (simp add: invalid_key_def)
qed

text \<open>
  C9. When a call the \<^verbatim>\<open>/api/openai\<close> handler made is fulfilled with a body that has no
  first choice (\<^verbatim>\<open>choices\<close> is missing, or is the empty list), reading the answer throws
  inside the \<^verbatim>\<open>try\<close>: nothing escapes the handler, and the answer is HTTP 500 with the
  error text \<^verbatim>\<open>Failed to get answer from AI.\<close> and, as \<^verbatim>\<open>details\<close>, the message of the
  \<^verbatim>\<open>TypeError\<close> (reading \<^verbatim>\<open>0\<close> of \<^verbatim>\<open>undefined\<close> when the list is missing, reading
  \<^verbatim>\<open>message\<close> of \<^verbatim>\<open>undefined\<close> when it is empty).
\<close>

theorem openai_no_first_choice_500:
  assumes "c \<in> set (calls_of (openai_handler e up req))"
    and "up c = Fulfilled r"
    and "get_member (data r) ''choices'' = Inr cs"
    and "cs = JUndefined \<or> cs = JArr []"
  shows "uncaught_of (openai_handler e up req) = None \<and>
         response_of (openai_handler e up req) =
           Some (500,
                 JObj [(''error'', JStr ''Failed to get answer from AI.''),
                       (''details'',
                        JStr (err_message (TypeError (cannot_read ''undefined''
                                (if cs = JUndefined then ''0'' else ''message'')))))])"
proof -
  from assms(1) obtain q where q: "destructure_question (body req) = Inr q" "truthy q"
    using openai_called by blast
  have fc: "first_content (data r) =
     Inl (TypeError (cannot_read ''undefined'' (if cs = JUndefined then ''0'' else ''message'')))"
    using assms(3,4) by (auto simp: first_content_def)
  from assms(1,2) fc show ?thesis
    by (auto simp: openai_run [OF q] effect_defs Let_def split: settled.splits sum.splits)
qed

theorem openai_no_first_choice_500_witness:
  "hd (calls_of (openai_handler sample_env (answers (JObj [(''choices'', JArr [])]))
                   (json_request (JObj [(''question'', JStr ''hi'')]))))
     \<in> set (calls_of (openai_handler sample_env (answers (JObj [(''choices'', JArr [])]))
                        (json_request (JObj [(''question'', JStr ''hi'')])))) \<and>
   get_member (JObj [(''choices'', JArr [])]) ''choices'' = Inr (JArr []) \<and>
   uncaught_of (openai_handler sample_env (answers (JObj [(''choices'', JArr [])]))
                  (json_request (JObj [(''question'', JStr ''hi'')]))) = None \<and>
   response_of (openai_handler sample_env (answers (JObj [(''choices'', JArr [])]))
                  (json_request (JObj [(''question'', JStr ''hi'')]))) =
     Some (500, JObj [(''error'', JStr ''Failed to get answer from AI.''),
                      (''details'', JStr (cannot_read ''undefined'' ''message''))]) \<and>
   hd (calls_of (openai_handler sample_env (answers (JObj []))
                   (json_request (JObj [(''question'', JStr ''hi'')]))))
     \<in> set (calls_of (openai_handler sample_env (answers (JObj []))
                        (json_request (JObj [(''question'', JStr ''hi'')])))) \<and>
   get_member (JObj []) ''choices'' = Inr JUndefined \<and>
   response_of (openai_handler sample_env (answers (JObj []))
                  (json_request (JObj [(''question'', JStr ''hi'')]))) =
     Some (500, JObj [(''error'', JStr ''Failed to get answer from AI.''),
                      (''details'', JStr (cannot_read ''undefined'' ''0''))])"
proof -
  let ?r1 = "openai_handler sample_env (answers (JObj [(''choices'', JArr [])]))
               (json_request (JObj [(''question'', JStr ''hi'')]))"
  let ?r2 = "openai_handler sample_env (answers (JObj []))
               (json_request (JObj [(''question'', JStr ''hi'')]))"
  have c1: "hd (calls_of ?r1) \<in> set (calls_of ?r1)"
    using sample_openai_called [of "JStr ''hi''"] by simp
  have u1: "answers (JObj [(''choices'', JArr [])]) (hd (calls_of ?r1)) =
              Fulfilled \<lparr>data = JObj [(''choices'', JArr [])], status = 200\<rparr>"
    by (simp add: answers_def)
  have g1: "get_member (data \<lparr>data = JObj [(''choices'', JArr [])], status = 200\<rparr>) ''choices'' =
              Inr (JArr [])"
    by simp
  have c2: "hd (calls_of ?r2) \<in> set (calls_of ?r2)"
    using sample_openai_called [of "JStr ''hi''"] by simp
  have u2: "answers (JObj []) (hd (calls_of ?r2)) = Fulfilled \<lparr>data = JObj [], status = 200\<rparr>"
    by (simp add: answers_def)
  have g2: "get_member (data \<lparr>data = JObj [], status = 200\<rparr>) ''choices'' = Inr JUndefined"
    by simp
  from openai_no_first_choice_500 [OF c1 u1 g1] openai_no_first_choice_500 [OF c2 u2 g2] c1 c2
  show ?thesis by simp
qed

section \<open>The outbound calls\<close>





text \<open>
  Without a credential in the environment both calls still go out, with the header
  \<^verbatim>\<open>Authorization: Bearer undefined\<close>.
\<close>

lemma bearer_without_key: "OPENAI_API_KEY e = None \<Longrightarrow> bearer e = ''Bearer undefined''"
  by (simp add: bearer_def template_str_def)

section \<open>What the question check tests\<close>

text \<open>
  C10. The check on \<^verbatim>\<open>question\<close> is \<^verbatim>\<open>!question\<close>: it tests falsiness and no type. For a
  JSON body whose \<^verbatim>\<open>question\<close> is any truthy value \<open>q\<close> (a number or an object as well as
  a string), the answer is not the 400 and the one call made carries \<open>q\<close> itself as the
  content of the user message. For the falsy values \<^verbatim>\<open>0\<close> and \<^verbatim>\<open>false\<close> the run is the same as
  for a body with no question at all: HTTP 400 \<^verbatim>\<open>{error: "No question provided."}\<close> and no
  call.
\<close>

theorem openai_validation_tests_falsiness:
  assumes "body req = JObj ps"
    and "map_of ps ''question'' = Some q"
  shows "(truthy q \<longrightarrow>
            map_option fst (response_of (openai_handler e up req)) \<noteq> Some 400 \<and>
            map payload (calls_of (openai_handler e up req)) =
              [JsonBody (JObj
                 [(''model'', JStr ''gpt-3.5-turbo''),
                  (''messages'', JArr [JObj [(''role'', JStr ''user''), (''content'', q)]]),
                  (''temperature'', JNum (Finite temperature_literal)),
                  (''max_tokens'', JNum (Finite 250))])]) \<and>
         (q = JNum (Finite 0) \<or> q = JBool False \<longrightarrow>
            openai_handler e up req = openai_handler e up (req\<lparr>body := JObj []\<rparr>) \<and>
            response_of (openai_handler e up req) =
              Some (400, JObj [(''error'', JStr ''No question provided.'')]) \<and>
            calls_of (openai_handler e up req) = [])"
    (is "(_ \<longrightarrow> ?A \<and> ?B) \<and> (?Z \<longrightarrow> ?C \<and> ?D \<and> ?E)")
proof -
  have d: "destructure_question (body req) = Inr q"
    using assms by (simp add: destructure_object)
  have d0: "destructure_question (body (req\<lparr>body := JObj []\<rparr>)) = Inr JUndefined"
    by (simp add: destructure_object)
  have a: ?A if t: "truthy q"
    by (simp add: openai_run [OF d t] effect_defs Let_def split: settled.splits sum.splits)
  have b: ?B if t: "truthy q"
    by (simp add: openai_run [OF d t] effect_defs Let_def chat_body_def max_tokens_literal_def
        split: settled.splits sum.splits)
  have f: "\<not> truthy q" if ?Z
    using that by auto
  have c: ?C if ?Z
    by (simp add: openai_falsy_run [OF d f [OF that]] openai_falsy_run [OF d0])
  have d': ?D if ?Z
    by (simp add: openai_falsy_run [OF d f [OF that]] response_of_def)
  have e': ?E if ?Z
    by (simp add: openai_falsy_run [OF d f [OF that]] calls_of_def)
  show ?thesis
  proof (intro conjI impI)
    assume "truthy q" then show ?A by (rule a)
  next
    assume "truthy q" then show ?B by (rule b)
  next
    assume ?Z then show ?C by (rule c)
  next
    assume ?Z then show ?D by (rule d')
  next
    assume ?Z then show ?E by (rule e')
  qed
qed

theorem openai_validation_tests_falsiness_witness:
  "truthy (JNum (Finite 42)) \<and>
   map_option fst (response_of (openai_handler sample_env (answers completion_42)
                                  (json_request (JObj [(''question'', JNum (Finite 42))]))))
     \<noteq> Some 400 \<and>
   map payload (calls_of (openai_handler sample_env (answers completion_42)
                            (json_request (JObj [(''question'', JNum (Finite 42))])))) =
     [JsonBody (JObj
        [(''model'', JStr ''gpt-3.5-turbo''),
         (''messages'',
          JArr [JObj [(''role'', JStr ''user''), (''content'', JNum (Finite 42))]]),
         (''temperature'', JNum (Finite temperature_literal)),
         (''max_tokens'', JNum (Finite 250))])] \<and>
   truthy (JObj []) \<and>
   map payload (calls_of (openai_handler sample_env unreachable
                            (json_request (JObj [(''question'', JObj [])])))) =
     [JsonBody (JObj
        [(''model'', JStr ''gpt-3.5-turbo''),
         (''messages'', JArr [JObj [(''role'', JStr ''user''), (''content'', JObj [])]]),
         (''temperature'', JNum (Finite temperature_literal)),
         (''max_tokens'', JNum (Finite 250))])] \<and>
   response_of (openai_handler sample_env (answers completion_42)
                  (json_request (JObj [(''question'', JNum (Finite 0))]))) =
     Some (400, JObj [(''error'', JStr ''No question provided.'')]) \<and>
   calls_of (openai_handler sample_env (answers completion_42)
               (json_request (JObj [(''question'', JNum (Finite 0))]))) = [] \<and>
   response_of (openai_handler sample_env (answers completion_42)
                  (json_request (JObj [(''question'', JBool False)]))) =
     Some (400, JObj [(''error'', JStr ''No question provided.'')]) \<and>
   calls_of (openai_handler sample_env (answers completion_42)
               (json_request (JObj [(''question'', JBool False)]))) = []"
proof -
  have b: "body (json_request (JObj [(''question'', v)])) = JObj [(''question'', v)]" for v
    by (simp add: json_request_def)
  have m: "map_of [(''question'', v)] ''question'' = Some v" for v :: json
    by simp
  have t42: "truthy (JNum (Finite 42))" and tobj: "truthy (JObj [])"
    by simp_all
  note w42 = openai_validation_tests_falsiness [OF b [of "JNum (Finite 42)"] m [of "JNum (Finite 42)"],
      where e = sample_env and up = "answers completion_42"]
  note wobj = openai_validation_tests_falsiness [OF b [of "JObj []"] m [of "JObj []"],
      where e = sample_env and up = unreachable]
  note w0 = openai_validation_tests_falsiness [OF b [of "JNum (Finite 0)"] m [of "JNum (Finite 0)"],
      where e = sample_env and up = "answers completion_42"]
  note wf = openai_validation_tests_falsiness [OF b [of "JBool False"] m [of "JBool False"],
      where e = sample_env and up = "answers completion_42"]
  note p42 = mp [OF conjunct1 [OF w42] t42]
  note pobj = mp [OF conjunct1 [OF wobj] tobj]
  have z0: "JNum (Finite 0) = JNum (Finite 0) \<or> JNum (Finite 0) = JBool False"
    and zf: "JBool False = JNum (Finite 0) \<or> JBool False = JBool False"
    by simp_all
  note r0 = conjunct2 [OF mp [OF conjunct2 [OF w0] z0]]
  note rf = conjunct2 [OF mp [OF conjunct2 [OF wf] zf]]
  show ?thesis
    using t42 tobj conjunct1 [OF p42] conjunct2 [OF p42] conjunct2 [OF pobj]
      conjunct1 [OF r0] conjunct2 [OF r0] conjunct1 [OF rf] conjunct2 [OF rf]
    by (intro conjI)
qed

end
